theory Spec2Isabelle
  imports Complex_Main "HOL-Library.Sublist" "HOL-Library.Multiset"
begin

section \<open>Numbers, errors and tables\<close>

text \<open>
  Times and coordinates are modelled as real numbers: comparisons, maxima and minima are
  then exactly those of the program, and arithmetic is the exact arithmetic that the
  floating-point operations approximate. A cell of a value column is a number or NaN, the
  missing value of a float column: every comparison with NaN is false, and a maximum or
  minimum passes over it. The maximum or minimum over no number at all is NaN.
\<close>

datatype fnum = Num real | NaN

fun fnum_gt :: "fnum \<Rightarrow> fnum \<Rightarrow> bool" where
  "fnum_gt (Num a) (Num b) = (a > b)"
| "fnum_gt _ _ = False"

fun fnum_le :: "fnum \<Rightarrow> fnum \<Rightarrow> bool" where
  "fnum_le (Num a) (Num b) = (a \<le> b)"
| "fnum_le _ _ = False"

fun nums :: "fnum list \<Rightarrow> real list" where
  "nums [] = []"
| "nums (Num x # xs) = x # nums xs"
| "nums (NaN # xs) = nums xs"

datatype error = IndexError | TypeError | ValueError | ZeroDivisionError

text \<open>
  A row is its time (the first column, which every constructed source has, with a label no
  other column bears) followed by the cells of the remaining columns. A data frame has the
  labels of the columns that follow the time column, also when it has no row, and labels may
  repeat. Rows are indexed by position.
\<close>

type_synonym row = "real \<times> fnum list"

record dataframe =
  columns :: "string list"
  rows :: "row list"

definition width :: "dataframe \<Rightarrow> nat" where
  "width d = length (columns d)"

definition cells :: "row \<Rightarrow> fnum list" where
  "cells r = Num (fst r) # snd r"

text \<open>The answer of a range query: t0, t1, highest, lowest, number of rows.\<close>

type_synonym hilo_answer = "real \<times> real \<times> fnum \<times> fnum \<times> nat"

definition answer_cnt :: "hilo_answer \<Rightarrow> nat" where
  "answer_cnt a = snd (snd (snd (snd a)))"

section \<open>The format \<open>%.9g\<close>\<close>

text \<open>
  The cache key of a query is the text \<open>'%.9g,%.9g' % (x0, x1)\<close>. The format rounds to nine
  significant digits (ties to even), writes an exponent below \<open>-4\<close> or from \<open>9\<close> on in
  scientific notation with at least two exponent digits, and drops trailing zeros of the
  fraction together with a bare decimal point.
\<close>

definition round_half_even :: "real \<Rightarrow> int" where
  "round_half_even x =
     (let f = \<lfloor>x\<rfloor>; d = x - of_int f
      in if d < 1 / 2 then f else if 1 / 2 < d then f + 1 else if even f then f else f + 1)"

definition digit_char :: "nat \<Rightarrow> char" where
  "digit_char d = ''0123456789'' ! (d mod 10)"

fun show_nat :: "nat \<Rightarrow> string" where
  "show_nat n = (if n < 10 then [digit_char n] else show_nat (n div 10) @ [digit_char (n mod 10)])"

declare show_nat.simps [simp del]

definition strip_zeros :: "string \<Rightarrow> string" where
  "strip_zeros s = rev (dropWhile (\<lambda>c. c = CHR ''0'') (rev s))"

definition with_point :: "string \<Rightarrow> string \<Rightarrow> string" where
  "with_point ip fr = (if fr = [] then ip else ip @ ''.'' @ fr)"

definition scale9 :: "real \<Rightarrow> int \<Rightarrow> real" where
  "scale9 a e = (if e \<le> 8 then a * 10 ^ nat (8 - e) else a / 10 ^ nat (e - 8))"

definition fmt9g :: "real \<Rightarrow> string" where
  "fmt9g x =
     (if x = 0 then ''0''
      else
        let a = \<bar>x\<bar>;
            e0 = \<lfloor>log 10 a\<rfloor>;
            m0 = round_half_even (scale9 a e0);
            m = (if m0 = 10 ^ 9 then 10 ^ 8 else m0);
            e = (if m0 = 10 ^ 9 then e0 + 1 else e0);
            ds = show_nat (nat m);
            body =
              (if e < - 4 \<or> 9 \<le> e then
                 with_point [hd ds] (strip_zeros (tl ds)) @ ''e'' @ (if e < 0 then ''-'' else ''+'')
                   @ (let ex = show_nat (nat \<bar>e\<bar>) in if length ex < 2 then ''0'' @ ex else ex)
               else if 0 \<le> e then
                 with_point (take (nat e + 1) ds) (strip_zeros (drop (nat e + 1) ds))
               else ''0.'' @ replicate (nat (- e - 1)) (CHR ''0'') @ strip_zeros ds)
        in (if x < 0 then ''-'' else '''') @ body)"

section \<open>PandasDataSource\<close>

record PandasDataSource =
  df :: dataframe
  skip_scale_colcnt :: nat
  cache_hilo_query :: string
  cache_hilo_answer :: "hilo_answer option"

text \<open>The constructor: a copy of the frame, nothing cached.\<close>

definition PandasDataSource_init :: "dataframe \<Rightarrow> PandasDataSource" where
  "PandasDataSource_init d =
     \<lparr>df = d, skip_scale_colcnt = 1, cache_hilo_query = '''', cache_hilo_answer = None\<rparr>"

text \<open>\<open>period\<close> reads the times of the first two rows; \<open>iloc\<close> raises when there are fewer.\<close>

definition period :: "PandasDataSource \<Rightarrow> error + real" where
  "period s = (case rows (df s) of r0 # r1 # _ \<Rightarrow> Inr (fst r1 - fst r0) | _ \<Rightarrow> Inl IndexError)"

text \<open>
  \<open>frame[labels]\<close> selects columns by label: for each label of the list, in its order, every
  column of the frame that bears it. Here for one row of cells, or for the labels themselves.
\<close>

definition select_labels :: "string list \<Rightarrow> string list \<Rightarrow> 'a list \<Rightarrow> 'a list" where
  "select_labels key cs xs =
     concat (map (\<lambda>k. map snd (filter (\<lambda>c. fst c = k) (zip cs xs))) key)"

text \<open>
  \<open>addcols\<close> takes \<open>df[df.columns[1:]]\<close> of the new frame, its columns after the time column
  selected by their labels (with distinct labels, those columns as they are), and
  \<open>pd.concat(..., axis=1)\<close> puts them beside the old ones, row by row. When the two frames
  differ in their number of rows pandas pads the shorter one with NaN cells, in the time
  column too; a frame with a row that has no time is outside the tables modelled here, and
  the result is \<open>None\<close>.
\<close>

definition concat_columns :: "dataframe \<Rightarrow> dataframe \<Rightarrow> dataframe option" where
  "concat_columns d new =
     (if length (rows d) = length (rows new)
      then Some \<lparr>columns = columns d @ select_labels (columns new) (columns new) (columns new),
                 rows = map2 (\<lambda>r n. (fst r, snd r @ select_labels (columns new) (columns new) (snd n)))
                          (rows d) (rows new)\<rparr>
      else None)"

definition addcols :: "PandasDataSource \<Rightarrow> dataframe \<Rightarrow> PandasDataSource option" where
  "addcols s new = map_option (\<lambda>d. s\<lparr>df := d\<rparr>) (concat_columns (df s) new)"

text \<open>
  The maximum over a list of numbers; over no number it is NaN. \<open>df[valcols].max().max()\<close> is
  the maximum over the numbers among the cells of all rows in the selected columns (\<open>max\<close>
  skips NaN cells). \<open>valcols\<close> are the labels of the columns from \<open>skip_scale_colcnt\<close> on, and
  \<open>df[valcols]\<close> selects by label: every column that bears one of these labels, so with
  distinct labels the columns from \<open>skip_scale_colcnt\<close> on. The time column is among them
  when nothing is skipped.
\<close>

definition valcols :: "PandasDataSource \<Rightarrow> string list" where
  "valcols s = drop (skip_scale_colcnt s - 1) (columns (df s))"

definition scaled_cells :: "PandasDataSource \<Rightarrow> row \<Rightarrow> fnum list" where
  "scaled_cells s r =
     (if skip_scale_colcnt s = 0 then [Num (fst r)] else [])
     @ map snd (filter (\<lambda>c. fst c \<in> set (valcols s)) (zip (columns (df s)) (snd r)))"

fun list_max :: "real list \<Rightarrow> fnum" where
  "list_max [] = NaN"
| "list_max (x # xs) = Num (fold max xs x)"

fun list_min :: "real list \<Rightarrow> fnum" where
  "list_min [] = NaN"
| "list_min (x # xs) = Num (fold min xs x)"

definition in_window :: "real \<Rightarrow> real \<Rightarrow> row \<Rightarrow> bool" where
  "in_window x0 x1 r \<longleftrightarrow> x0 \<le> fst r \<and> fst r \<le> x1"

definition sentinel :: hilo_answer where
  "sentinel = (0, 0, Num 0, Num 0, 0)"

text \<open>The method \<open>_hilo\<close>.\<close>

definition u_hilo :: "PandasDataSource \<Rightarrow> real \<Rightarrow> real \<Rightarrow> hilo_answer" where
  "u_hilo s x0 x1 =
     (let sel = filter (in_window x0 x1) (rows (df s))
      in if length sel = 0 then sentinel
         else
           let t0 = fst (hd sel);
               t1 = fst (last sel);
               valcells = concat (map (scaled_cells s) sel);
               hi = list_max (nums valcells);
               lo = list_min (nums valcells)
           in (t0, t1, hi, lo, length sel))"

definition hilo_query :: "real \<Rightarrow> real \<Rightarrow> string" where
  "hilo_query x0 x1 = fmt9g x0 @ '','' @ fmt9g x1"

text \<open>The method \<open>hilo\<close>: the returned value and the source with its cache updated.\<close>

definition hilo :: "PandasDataSource \<Rightarrow> real \<Rightarrow> real \<Rightarrow> hilo_answer option \<times> PandasDataSource" where
  "hilo s x0 x1 =
     (let query = hilo_query x0 x1;
          s' = (if query \<noteq> cache_hilo_query s
                then s\<lparr>cache_hilo_query := query, cache_hilo_answer := Some (u_hilo s x0 x1)\<rparr>
                else s)
      in (cache_hilo_answer s', s'))"

text \<open>
  What \<open>zip(*iterables)\<close> yields: the tuples of the \<open>k\<close>-th elements, as many as the shortest
  iterable has elements; nothing for no iterable.
\<close>

definition zip_star :: "'a list list \<Rightarrow> 'a list list" where
  "zip_star xss =
     (if xss = [] then []
      else map (\<lambda>k. map (\<lambda>xs. xs ! k) xss) [0..<Min (set (map length xss))])"

text \<open>
  An element of a tuple yielded by \<open>bear_rows\<close> or \<open>bull_rows\<close>: a cell, or a column label.
  \<open>rows[c]\<close> is the column labelled \<open>c\<close> when one column bears that label, and iterating it
  yields its cells; when several columns bear it, \<open>rows[c]\<close> is the frame of those columns,
  and iterating a frame yields its column labels.
\<close>

datatype item = Cell fnum | ColLabel string


definition label_repeated :: "dataframe \<Rightarrow> nat \<Rightarrow> bool" where
  "label_repeated d i \<longleftrightarrow> 1 < count_list (columns d) (columns d ! i)"

definition column_iter :: "dataframe \<Rightarrow> row list \<Rightarrow> nat \<Rightarrow> item list" where
  "column_iter d rs i =
     (if label_repeated d i
      then replicate (count_list (columns d) (columns d ! i)) (ColLabel (columns d ! i))
      else map (\<lambda>r. Cell (snd r ! i)) rs)"

definition zip_columns :: "dataframe \<Rightarrow> row list \<Rightarrow> item list list" where
  "zip_columns d rs =
     zip_star (map (\<lambda>r. Cell (Num (fst r))) rs # map (column_iter d rs) [0..<length (columns d)])"

text \<open>
  \<open>bear_rows\<close> and \<open>bull_rows\<close> compare the second column (open) with the third (close), cell
  by cell, and zip the columns of the rows that pass. \<open>columns[2]\<close> raises when the frame has
  fewer than three columns. When the open or the close label is borne by several columns,
  \<open>df.loc[:, label]\<close> is a frame, not a column, and indexing the rows with the outcome of
  the comparison raises.
\<close>

definition bear_rows :: "PandasDataSource \<Rightarrow> error + item list list" where
  "bear_rows s =
     (if length (columns (df s)) < 2 then Inl IndexError
      else if label_repeated (df s) 0 \<or> label_repeated (df s) 1 then Inl ValueError
      else Inr (zip_columns (df s)
                 (filter (\<lambda>r. fnum_gt (snd r ! 0) (snd r ! 1)) (rows (df s)))))"

definition bull_rows :: "PandasDataSource \<Rightarrow> error + item list list" where
  "bull_rows s =
     (if length (columns (df s)) < 2 then Inl IndexError
      else if label_repeated (df s) 0 \<or> label_repeated (df s) 1 then Inl ValueError
      else Inr (zip_columns (df s)
                 (filter (\<lambda>r. fnum_le (snd r ! 0) (snd r ! 1)) (rows (df s)))))"

text \<open>
  What the cache holds on every source built by the constructor and then used through
  \<open>hilo\<close> and \<open>addcols\<close>: either nothing under the empty key, or an answer whose row count is
  not larger than the table.
\<close>

definition cache_ok :: "PandasDataSource \<Rightarrow> bool" where
  "cache_ok s =
     (case cache_hilo_answer s of
        None \<Rightarrow> cache_hilo_query s = ''''
      | Some a \<Rightarrow> answer_cnt a \<le> length (rows (df s)))"

section \<open>FinViewBox\<close>

text \<open>
  A rectangle built from two corner points, \<open>QRectF(Point(x0, y0), Point(x1, y1))\<close>. Its Y
  coordinates come from \<open>hi\<close> and \<open>lo\<close> and can therefore be NaN.
\<close>

record rect =
  x_left :: real
  y_top :: fnum
  x_right :: real
  y_bottom :: fnum

definition rect_width :: "rect \<Rightarrow> real" where
  "rect_width r = x_right r - x_left r"

definition center_x :: "rect \<Rightarrow> real" where
  "center_x r = x_left r + rect_width r / 2"

text \<open>
  The state of a view box: the fields of the class, and of the toolkit's view box the target
  rectangle (what \<open>setRange\<close> was last given, read back by \<open>targetRect\<close>), the wheel scale
  factor and the Y limits set through \<open>setLimits\<close>. A heavy item is its visibility flag.
\<close>

record FinViewBox =
  datasrc :: "PandasDataSource option"
  auto_scale_y :: bool
  heavies :: "bool list"
  heavies_blind_cnt :: int
  targetRect :: rect
  wheelScaleFactor :: real
  yLimits :: "(real \<times> real) option"

definition add_heavy_item :: "FinViewBox \<Rightarrow> FinViewBox" where
  "add_heavy_item vb = vb\<lparr>heavies := heavies vb @ [False], heavies_blind_cnt := 50\<rparr>"

text \<open>The function \<open>set_y_range\<close>, on the view box of the axis it is given.\<close>

definition set_y_range :: "FinViewBox \<Rightarrow> real \<Rightarrow> real \<Rightarrow> FinViewBox" where
  "set_y_range vb ymin ymax = vb\<lparr>auto_scale_y := False, yLimits := Some (ymin, ymax)\<rparr>"

text \<open>The method \<open>_setRange\<close>: hide the heavy items, hand the rectangle over, restart the count.\<close>

definition u_setRange :: "FinViewBox \<Rightarrow> real \<Rightarrow> fnum \<Rightarrow> real \<Rightarrow> fnum \<Rightarrow> FinViewBox" where
  "u_setRange vb x0 y0 x1 y1 =
     vb\<lparr>heavies := map (\<lambda>_. False) (heavies vb),
        targetRect := \<lparr>x_left = x0, y_top = y0, x_right = x1, y_bottom = y1\<rparr>,
        heavies_blind_cnt := 2\<rparr>"

text \<open>The timer's callback \<open>show_heavies\<close>.\<close>

definition show_heavies :: "FinViewBox \<Rightarrow> FinViewBox" where
  "show_heavies vb =
     (let vb' = vb\<lparr>heavies_blind_cnt := heavies_blind_cnt vb - 1\<rparr>
      in if heavies_blind_cnt vb' \<noteq> 0 then vb'
         else vb'\<lparr>heavies := map (\<lambda>_. True) (heavies vb')\<rparr>)"

text \<open>The candidate window of \<open>scaleRect\<close>: the X bounds scaled about the center.\<close>

definition zoom_window :: "rect \<Rightarrow> real \<Rightarrow> real \<Rightarrow> real \<times> real" where
  "zoom_window vr scale_fact cx =
     (cx + (x_left vr - cx) * scale_fact, cx + (x_right vr - cx) * scale_fact)"

text \<open>
  The method \<open>scaleRect\<close>. Of the center point only \<open>center.x()\<close> is read, so the optional
  center is its X coordinate; without one it is the center of the rectangle. Unpacking a
  cached answer that is \<open>None\<close> raises.
\<close>

definition zoom_center :: "rect \<Rightarrow> real option \<Rightarrow> real" where
  "zoom_center vr center = (case center of None \<Rightarrow> center_x vr | Some c \<Rightarrow> c)"

definition scaleRect :: "FinViewBox \<Rightarrow> rect \<Rightarrow> real \<Rightarrow> real option \<Rightarrow> error + FinViewBox" where
  "scaleRect vb vr scale_fact center =
     (case datasrc vb of
        None \<Rightarrow> Inr vb
      | Some s \<Rightarrow>
          let (x0, x1) = zoom_window vr scale_fact (zoom_center vr center);
              (answer, s') = hilo s x0 x1;
              vb' = vb\<lparr>datasrc := Some s'\<rparr>
          in case answer of
               None \<Rightarrow> Inl TypeError
             | Some (t0, t1, hi, lo, cnt) \<Rightarrow>
                 if cnt < 20 then Inr vb'
                 else
                   (case period s' of
                      Inl e \<Rightarrow> Inl e
                    | Inr p \<Rightarrow> Inr (u_setRange vb' (t0 - p * 0.5) lo (t1 + p * 0.5) hi)))"

text \<open>
  The method \<open>wheelEvent\<close>, given the wheel delta and the X coordinate of the cursor in data
  coordinates (the Y coordinate is carried along and never read). The quotient of two floats
  raises when the rectangle has no width.
\<close>

definition wheelEvent :: "FinViewBox \<Rightarrow> int \<Rightarrow> real \<Rightarrow> error + FinViewBox" where
  "wheelEvent vb delta cx =
     (let scale_fact = 1.02 powr (of_int delta * wheelScaleFactor vb);
          vr = targetRect vb
      in if rect_width vr = 0 then Inl ZeroDivisionError
         else
           let center =
                 (if (cx - x_left vr) / rect_width vr < 0.2 then x_left vr
                  else if (cx - x_left vr) / rect_width vr > 0.8 then x_right vr
                  else cx)
           in scaleRect vb vr scale_fact (Some center))"

section \<open>Sequences of queries and example data\<close>

text \<open>The source after a sequence of \<open>hilo\<close> calls, one per window.\<close>

definition run_queries :: "PandasDataSource \<Rightarrow> (real \<times> real) list \<Rightarrow> PandasDataSource" where
  "run_queries s ws = fold (\<lambda>w s'. snd (hilo s' (fst w) (snd w))) ws s"

text \<open>Twenty samples of one series, a minute apart, rising from 10 to 29.\<close>

definition ex_frame20 :: dataframe where
  "ex_frame20 = \<lparr>columns = [''close''], rows =
     [(0, [Num 10]), (60, [Num 11]), (120, [Num 12]), (180, [Num 13]), (240, [Num 14]),
      (300, [Num 15]), (360, [Num 16]), (420, [Num 17]), (480, [Num 18]), (540, [Num 19]),
      (600, [Num 20]), (660, [Num 21]), (720, [Num 22]), (780, [Num 23]), (840, [Num 24]),
      (900, [Num 25]), (960, [Num 26]), (1020, [Num 27]), (1080, [Num 28]), (1140, [Num 29])]\<rparr>"

definition ex_source20 :: PandasDataSource where
  "ex_source20 = PandasDataSource_init ex_frame20"

text \<open>A view box on that source, showing all of it between 0 and 1000, with one heavy item.\<close>

definition ex_view :: FinViewBox where
  "ex_view =
     \<lparr>datasrc = Some ex_source20, auto_scale_y = True, heavies = [True],
      heavies_blind_cnt = 0,
      targetRect = \<lparr>x_left = 0, y_top = Num 0, x_right = 1140, y_bottom = Num 1000\<rparr>,
      wheelScaleFactor = - 1 / 8, yLimits = None\<rparr>"


text \<open>Two samples at epoch times, and a frame of one more column for the same times.\<close>

definition ex_epoch :: PandasDataSource where
  "ex_epoch = PandasDataSource_init
     \<lparr>columns = [''close''], rows = [(1500000000, [Num 5]), (1500000060, [Num 7])]\<rparr>"

definition ex_extra :: dataframe where
  "ex_extra =
     \<lparr>columns = [''volume''], rows = [(1500000000, [Num 100]), (1500000060, [Num 200])]\<rparr>"

text \<open>
  The epoch source after one query whose upper bound lies just past the second sample, and
  after the extra column has then been merged in.
\<close>

definition ex_primed :: PandasDataSource where
  "ex_primed = snd (hilo ex_epoch 0 1500000062)"

definition ex_merged :: PandasDataSource where
  "ex_merged = (snd (hilo ex_epoch 1500000000 1500000060))
     \<lparr>df := \<lparr>columns = [''close'', ''volume''],
               rows = [(1500000000, [Num 5, Num 100]), (1500000060, [Num 7, Num 200])]\<rparr>\<rparr>"

text \<open>The rectangle over the first nineteen samples of the twenty.\<close>

definition ex_rect19 :: rect where
  "ex_rect19 = \<lparr>x_left = 0, y_top = Num 0, x_right = 1080, y_bottom = Num 1000\<rparr>"


text \<open>The epoch source after one query of the window around its second sample.\<close>

definition ex_late :: PandasDataSource where
  "ex_late = snd (hilo ex_epoch 1500000058 1500000062)"

section \<open>Facts about the data source\<close>

lemma filter_in_window_reversed: "x1 < x0 \<Longrightarrow> filter (in_window x0 x1) rs = []"
  by (induction rs) (auto simp: in_window_def)

lemma u_hilo_empty:
  "filter (in_window x0 x1) (rows (df s)) = [] \<Longrightarrow> u_hilo s x0 x1 = sentinel"
  by (simp add: u_hilo_def)

lemma answer_cnt_u_hilo:
  "answer_cnt (u_hilo s x0 x1) = length (filter (in_window x0 x1) (rows (df s)))"
  by (simp add: u_hilo_def Let_def answer_cnt_def sentinel_def)

lemma scaled_cells_cong:
  "df s' = df s \<Longrightarrow> skip_scale_colcnt s' = skip_scale_colcnt s \<Longrightarrow>
   scaled_cells s' = scaled_cells s"
  by (rule ext) (simp add: scaled_cells_def valcols_def)

lemma u_hilo_cong:
  assumes "df s' = df s" and "skip_scale_colcnt s' = skip_scale_colcnt s"
  shows "u_hilo s' x0 x1 = u_hilo s x0 x1"
proof -
  have "scaled_cells s' = scaled_cells s" using assms by (rule scaled_cells_cong)
  then show ?thesis using assms(1) by (simp add: u_hilo_def Let_def)
qed

lemma hilo_query_nonempty: "hilo_query x0 x1 \<noteq> []" "[] \<noteq> hilo_query x0 x1"
  by (simp_all add: hilo_query_def)

lemma hilo_hit:
  "cache_hilo_query s = hilo_query x0 x1 \<Longrightarrow> hilo s x0 x1 = (cache_hilo_answer s, s)"
  by (simp add: hilo_def Let_def)

lemma hilo_miss:
  "cache_hilo_query s \<noteq> hilo_query x0 x1 \<Longrightarrow>
   hilo s x0 x1 =
     (Some (u_hilo s x0 x1),
      s\<lparr>cache_hilo_query := hilo_query x0 x1, cache_hilo_answer := Some (u_hilo s x0 x1)\<rparr>)"
  by (auto simp add: hilo_def Let_def)

lemma hilo_df: "df (snd (hilo s x0 x1)) = df s"
  by (simp add: hilo_def Let_def)

lemma hilo_skip: "skip_scale_colcnt (snd (hilo s x0 x1)) = skip_scale_colcnt s"
  by (simp add: hilo_def Let_def)

lemma hilo_cache_query: "cache_hilo_query (snd (hilo s x0 x1)) = hilo_query x0 x1"
  by (simp add: hilo_def Let_def)

lemma hilo_cache_answer: "cache_hilo_answer (snd (hilo s x0 x1)) = fst (hilo s x0 x1)"
  by (simp add: hilo_def Let_def)

text \<open>The cache invariant holds after construction and is kept by the two mutating methods.\<close>

lemma cache_ok_init: "cache_ok (PandasDataSource_init d)"
  by (simp add: cache_ok_def PandasDataSource_init_def)

lemma cache_ok_hilo: "cache_ok s \<Longrightarrow> cache_ok (snd (hilo s x0 x1))"
  by (cases "cache_hilo_query s = hilo_query x0 x1")
     (simp_all add: hilo_hit hilo_miss cache_ok_def answer_cnt_u_hilo)

lemma cache_ok_addcols: "cache_ok s \<Longrightarrow> addcols s new = Some s' \<Longrightarrow> cache_ok s'"
  by (auto simp: cache_ok_def addcols_def concat_columns_def split: if_splits option.splits)

lemma cache_ok_hilo_Some:
  assumes "cache_ok s"
  shows "\<exists>a. fst (hilo s x0 x1) = Some a \<and> answer_cnt a \<le> length (rows (df s))"
proof (cases "cache_hilo_query s = hilo_query x0 x1")
  case True
  then have "cache_hilo_query s \<noteq> []" by (simp add: hilo_query_nonempty)
  with assms obtain a where "cache_hilo_answer s = Some a" "answer_cnt a \<le> length (rows (df s))"
    by (auto simp: cache_ok_def split: option.splits)
  then show ?thesis using True by (simp add: hilo_hit)
next
  case False
  then show ?thesis by (simp add: hilo_miss answer_cnt_u_hilo)
qed

lemma period_two_rows: "2 \<le> length (rows (df s)) \<Longrightarrow> \<exists>p. period s = Inr p"
  by (auto simp: period_def split: list.splits)

text \<open>With distinct labels the selection by label is the selection by position.\<close>

lemma filter_zip_drop:
  "distinct cs \<Longrightarrow> length vs = length cs \<Longrightarrow>
   map snd (filter (\<lambda>c. fst c \<in> set (drop k cs)) (zip cs vs)) = drop k vs"
proof (induction cs arbitrary: vs k)
  case Nil
  then show ?case by simp
next
  case (Cons c cs)
  from Cons.prems(2) obtain v vs' where vs: "vs = v # vs'" and l: "length vs' = length cs"
    by (cases vs) auto
  have d: "distinct cs" and n: "c \<notin> set cs" using Cons.prems(1) by simp_all
  show ?case
  proof (cases k)
    case 0
    have "filter (\<lambda>x. fst x \<in> set (c # cs)) (zip (c # cs) vs) = zip (c # cs) vs"
      by (rule filter_True) (auto dest: set_zip_leftD)
    then have "map snd (filter (\<lambda>x. fst x \<in> set (c # cs)) (zip (c # cs) vs)) = vs"
      using Cons.prems(2) by (simp only: map_snd_zip)
    then show ?thesis using 0 by simp
  next
    case (Suc j)
    have "c \<notin> set (drop j cs)" using n by (auto dest: in_set_dropD)
    moreover have "map snd (filter (\<lambda>c. fst c \<in> set (drop j cs)) (zip cs vs')) = drop j vs'"
      using Cons.IH[OF d l] .
    ultimately show ?thesis using Suc vs by simp
  qed
qed

lemma scaled_cells_distinct:
  assumes "distinct (columns (df s))" and "length (snd r) = length (columns (df s))"
  shows "scaled_cells s r = drop (skip_scale_colcnt s) (cells r)"
proof (cases "skip_scale_colcnt s")
  case 0
  have "map snd (filter (\<lambda>c. fst c \<in> set (drop 0 (columns (df s)))) (zip (columns (df s)) (snd r)))
        = drop 0 (snd r)"
    using assms by (rule filter_zip_drop)
  then show ?thesis using 0 by (simp add: scaled_cells_def valcols_def cells_def)
next
  case (Suc k)
  have "map snd (filter (\<lambda>c. fst c \<in> set (drop k (columns (df s)))) (zip (columns (df s)) (snd r)))
        = drop k (snd r)"
    using assms by (rule filter_zip_drop)
  then show ?thesis using Suc by (simp add: scaled_cells_def valcols_def cells_def)
qed









lemma bear_rows_repeated_label:
  "2 \<le> width (df s) \<Longrightarrow> label_repeated (df s) 0 \<or> label_repeated (df s) 1 \<Longrightarrow>
   bear_rows s = Inl ValueError \<and> bull_rows s = Inl ValueError"
  by (auto simp: bear_rows_def bull_rows_def width_def)

section \<open>Facts about the view box\<close>

lemma scaleRect_rejected:
  assumes "datasrc vb = Some s"
    and "hilo s (fst (zoom_window vr sf (zoom_center vr center)))
                (snd (zoom_window vr sf (zoom_center vr center))) = (Some (t0, t1, hi, lo, cnt), s')"
    and "cnt < 20"
  shows "scaleRect vb vr sf center = Inr (vb\<lparr>datasrc := Some s'\<rparr>)"
  using assms by (simp add: scaleRect_def split_beta)

lemma scaleRect_accepted:
  assumes "datasrc vb = Some s"
    and "hilo s (fst (zoom_window vr sf (zoom_center vr center)))
                (snd (zoom_window vr sf (zoom_center vr center))) = (Some (t0, t1, hi, lo, cnt), s')"
    and "20 \<le> cnt"
    and "period s = Inr p"
  shows "scaleRect vb vr sf center =
           Inr (u_setRange (vb\<lparr>datasrc := Some s'\<rparr>) (t0 - p * 0.5) lo (t1 + p * 0.5) hi)"
proof -
  have "s' = snd (hilo s (fst (zoom_window vr sf (zoom_center vr center)))
                (snd (zoom_window vr sf (zoom_center vr center))))"
    using assms(2) by simp
  then have "df s' = df s" by (simp add: hilo_df)
  then have "period s' = Inr p" using assms(4) by (simp add: period_def)
  then show ?thesis using assms by (simp add: scaleRect_def split_beta)
qed

lemma show_heavies_cnt: "heavies_blind_cnt (show_heavies vb) = heavies_blind_cnt vb - 1"
  by (simp add: show_heavies_def Let_def)

lemma ticks_cnt: "heavies_blind_cnt ((show_heavies ^^ n) vb) = heavies_blind_cnt vb - int n"
  by (induction n) (simp_all add: show_heavies_cnt)

lemma show_heavies_heavies:
  "heavies (show_heavies vb) =
     (if heavies_blind_cnt vb = 1 then map (\<lambda>_. True) (heavies vb) else heavies vb)"
  by (simp add: show_heavies_def Let_def)

lemma ticks_length: "length (heavies ((show_heavies ^^ n) vb)) = length (heavies vb)"
  by (induction n) (simp_all add: show_heavies_heavies)

lemma ticks_after_setRange:
  "heavies ((show_heavies ^^ n) (u_setRange vb a b c d)) = map (\<lambda>_. 2 \<le> n) (heavies vb)"
proof (induction n)
  case 0
  show ?case by (simp add: u_setRange_def)
next
  case (Suc n)
  have c: "heavies_blind_cnt ((show_heavies ^^ n) (u_setRange vb a b c d)) = 2 - int n"
    by (simp add: ticks_cnt u_setRange_def)
  show ?case
  proof (cases "n = 1")
    case True
    then show ?thesis using Suc c by (simp add: show_heavies_heavies o_def)
  next
    case False
    then have "(Suc 0 \<le> n) = (2 \<le> n)" by arith
    then show ?thesis using False Suc c by (simp add: show_heavies_heavies)
  qed
qed

text \<open>Evaluating the format: the decimal exponent of a number between two powers of ten.\<close>

lemma floor_log10_eqI:
  assumes "10 ^ n \<le> a" "a < 10 ^ Suc n"
  shows "\<lfloor>log 10 a\<rfloor> = int n"
proof -
  have pos: "0 < a" using assms(1) by (smt (verit) zero_less_power)
  have "real n \<le> log 10 a"
    using assms(1) pos by (simp add: le_log_iff powr_realpow)
  moreover have "log 10 a < real n + 1"
    using assms(2) pos by (simp add: log_less_iff powr_realpow powr_add)
  ultimately show ?thesis by (simp add: floor_eq_iff)
qed

lemmas fmt9g_eval = fmt9g_def Let_def scale9_def round_half_even_def show_nat.simps
  digit_char_def strip_zeros_def with_point_def

lemma fmt9g_epoch_58: "fmt9g 1500000058 = ''1.50000006e+09''"
  by (simp add: fmt9g_eval floor_log10_eqI[of 9])

lemma fmt9g_epoch_62: "fmt9g 1500000062 = ''1.50000006e+09''"
  by (simp add: fmt9g_eval floor_log10_eqI[of 9])

lemma fmt9g_epoch_00: "fmt9g 1500000000 = ''1.5e+09''"
  by (simp add: fmt9g_eval floor_log10_eqI[of 9])

section \<open>The example data evaluated\<close>

lemmas u_hilo_eval = u_hilo_def Let_def in_window_def scaled_cells_def valcols_def sentinel_def

lemma ex_epoch_fields:
  "rows (df ex_epoch) = [(1500000000, [Num 5]), (1500000060, [Num 7])]"
  "columns (df ex_epoch) = [''close'']"
  "skip_scale_colcnt ex_epoch = 1"
  "cache_hilo_query ex_epoch = []"
  "cache_hilo_answer ex_epoch = None"
  by (simp_all add: ex_epoch_def PandasDataSource_init_def)

lemma ex_source20_fields:
  "rows (df ex_source20) = rows ex_frame20"
  "columns (df ex_source20) = columns ex_frame20"
  "skip_scale_colcnt ex_source20 = 1"
  "cache_hilo_query ex_source20 = []"
  "cache_hilo_answer ex_source20 = None"
  by (simp_all add: ex_source20_def PandasDataSource_init_def)

lemma u_hilo_ex20_all: "u_hilo ex_source20 0 1140 = (0, 1140, Num 29, Num 10, 20)"
  by (simp add: u_hilo_eval ex_source20_fields ex_frame20_def)

lemma u_hilo_ex20_19: "u_hilo ex_source20 0 1080 = (0, 1080, Num 28, Num 10, 19)"
  by (simp add: u_hilo_eval ex_source20_fields ex_frame20_def)

lemma period_ex20: "period ex_source20 = Inr 60"
  by (simp add: period_def ex_source20_fields ex_frame20_def)

lemma cache_ok_ex20: "cache_ok ex_source20"
  unfolding ex_source20_def by (rule cache_ok_init)

lemma hilo_ex20_all:
  "hilo ex_source20 0 1140 = (Some (0, 1140, Num 29, Num 10, 20),
     ex_source20\<lparr>cache_hilo_query := hilo_query 0 1140,
                  cache_hilo_answer := Some (0, 1140, Num 29, Num 10, 20)\<rparr>)"
  using hilo_miss[of ex_source20 0 1140]
  by (simp add: ex_source20_fields hilo_query_nonempty u_hilo_ex20_all)

lemma hilo_ex20_19:
  "hilo ex_source20 0 1080 = (Some (0, 1080, Num 28, Num 10, 19),
     ex_source20\<lparr>cache_hilo_query := hilo_query 0 1080,
                  cache_hilo_answer := Some (0, 1080, Num 28, Num 10, 19)\<rparr>)"
  using hilo_miss[of ex_source20 0 1080]
  by (simp add: ex_source20_fields hilo_query_nonempty u_hilo_ex20_19)

lemma ex_view_fields:
  "datasrc ex_view = Some ex_source20"
  "targetRect ex_view = \<lparr>x_left = 0, y_top = Num 0, x_right = 1140, y_bottom = Num 1000\<rparr>"
  by (simp_all add: ex_view_def)

lemma zoom_ex_all:
  "zoom_window (targetRect ex_view) 1 (zoom_center (targetRect ex_view) None) = (0, 1140)"
  by (simp add: zoom_window_def zoom_center_def center_x_def rect_width_def ex_view_fields)

lemma zoom_ex_19: "zoom_window ex_rect19 1 (zoom_center ex_rect19 None) = (0, 1080)"
  by (simp add: zoom_window_def zoom_center_def center_x_def rect_width_def ex_rect19_def)

lemma hilo_query_epoch_58: "hilo_query 0 1500000058 = ''0,1.50000006e+09''"
  by (simp add: hilo_query_def fmt9g_epoch_58) (simp add: fmt9g_def)

lemma hilo_query_epoch_62: "hilo_query 0 1500000062 = ''0,1.50000006e+09''"
  by (simp add: hilo_query_def fmt9g_epoch_62) (simp add: fmt9g_def)

lemma hilo_query_epoch_00: "hilo_query 0 1500000000 = ''0,1.5e+09''"
  by (simp add: hilo_query_def fmt9g_epoch_00) (simp add: fmt9g_def)

lemma u_hilo_epoch_62: "u_hilo ex_epoch 0 1500000062 = (1500000000, 1500000060, Num 7, Num 5, 2)"
  by (simp add: u_hilo_eval ex_epoch_fields)

lemma u_hilo_epoch_58: "u_hilo ex_epoch 0 1500000058 = (1500000000, 1500000000, Num 5, Num 5, 1)"
  by (simp add: u_hilo_eval ex_epoch_fields)

lemma ex_primed_eq:
  "ex_primed = ex_epoch\<lparr>cache_hilo_query := ''0,1.50000006e+09'',
       cache_hilo_answer := Some (1500000000, 1500000060, Num 7, Num 5, 2)\<rparr>"
  using hilo_miss[of ex_epoch 0 1500000062]
  by (simp add: ex_primed_def ex_epoch_fields hilo_query_epoch_62 u_hilo_epoch_62)

lemma u_hilo_primed_58:
  "u_hilo ex_primed 0 1500000058 = (1500000000, 1500000000, Num 5, Num 5, 1)"
  using u_hilo_cong[of ex_primed ex_epoch 0 1500000058]
  by (simp add: ex_primed_eq u_hilo_epoch_58)

lemma hilo_query_late:
  "hilo_query 1500000058 1500000062 = ''1.50000006e+09,1.50000006e+09''"
  "hilo_query 1500000062 1500000062 = ''1.50000006e+09,1.50000006e+09''"
  by (simp_all add: hilo_query_def fmt9g_epoch_58 fmt9g_epoch_62)

lemma u_hilo_epoch_late:
  "u_hilo ex_epoch 1500000058 1500000062 = (1500000060, 1500000060, Num 7, Num 7, 1)"
  by (simp add: u_hilo_eval ex_epoch_fields)

lemma ex_late_eq:
  "ex_late = ex_epoch\<lparr>cache_hilo_query := ''1.50000006e+09,1.50000006e+09'',
       cache_hilo_answer := Some (1500000060, 1500000060, Num 7, Num 7, 1)\<rparr>"
  using hilo_miss[of ex_epoch 1500000058 1500000062]
  by (simp add: ex_late_def ex_epoch_fields hilo_query_late u_hilo_epoch_late)

section \<open>The claims of the specification\<close>

text \<open>
  C1. Claimed: once \<open>set_y_range\<close> has switched \<open>auto_scale_y\<close> off, an accepted rescale leaves
  the Y bounds alone. \<open>scaleRect\<close> never reads the flag: its result is the same whatever the
  flag is, and on the twenty-sample view fixed to Y between 0 and 1000 the accepted rescale
  sets Y to the lowest and highest value, 10 and 29, with the flag still off.
\<close>

theorem scaleRect_ignores_auto_scale_y:
  "scaleRect (vb\<lparr>auto_scale_y := b\<rparr>) vr sf center
     = map_sum id (\<lambda>v. v\<lparr>auto_scale_y := b\<rparr>) (scaleRect vb vr sf center)
   \<and> targetRect (set_y_range ex_view 0 1000)
       = \<lparr>x_left = 0, y_top = Num 0, x_right = 1140, y_bottom = Num 1000\<rparr>
   \<and> map_sum id (\<lambda>v. (auto_scale_y v, targetRect v))
       (scaleRect (set_y_range ex_view 0 1000) (targetRect (set_y_range ex_view 0 1000)) 1 None)
       = Inr (False, \<lparr>x_left = - 30, y_top = Num 10, x_right = 1170, y_bottom = Num 29\<rparr>)"
proof -
  have 1: "scaleRect (vb\<lparr>auto_scale_y := b\<rparr>) vr sf center
     = map_sum id (\<lambda>v. v\<lparr>auto_scale_y := b\<rparr>) (scaleRect vb vr sf center)"
    by (simp add: scaleRect_def u_setRange_def split_beta Let_def split: option.splits sum.splits)
  have t: "targetRect (set_y_range ex_view 0 1000)
       = \<lparr>x_left = 0, y_top = Num 0, x_right = 1140, y_bottom = Num 1000\<rparr>"
    by (simp add: set_y_range_def ex_view_fields)
  have d: "datasrc (set_y_range ex_view 0 1000) = Some ex_source20"
    by (simp add: set_y_range_def ex_view_fields)
  have z: "zoom_window (targetRect (set_y_range ex_view 0 1000)) 1
             (zoom_center (targetRect (set_y_range ex_view 0 1000)) None) = (0, 1140)"
    using zoom_ex_all by (simp add: t ex_view_fields)
  have h: "hilo ex_source20
       (fst (zoom_window (targetRect (set_y_range ex_view 0 1000)) 1
             (zoom_center (targetRect (set_y_range ex_view 0 1000)) None)))
       (snd (zoom_window (targetRect (set_y_range ex_view 0 1000)) 1
             (zoom_center (targetRect (set_y_range ex_view 0 1000)) None)))
     = (Some (0, 1140, Num 29, Num 10, 20),
     ex_source20\<lparr>cache_hilo_query := hilo_query 0 1140,
                  cache_hilo_answer := Some (0, 1140, Num 29, Num 10, 20)\<rparr>)"
    by (simp only: z fst_conv snd_conv hilo_ex20_all)
  have 3: "map_sum id (\<lambda>v. (auto_scale_y v, targetRect v))
       (scaleRect (set_y_range ex_view 0 1000) (targetRect (set_y_range ex_view 0 1000)) 1 None)
       = Inr (False, \<lparr>x_left = - 30, y_top = Num 10, x_right = 1170, y_bottom = Num 29\<rparr>)"
    using scaleRect_accepted[OF d h _ period_ex20]
    by (simp add: u_setRange_def set_y_range_def)
  show ?thesis using 1 t 3 by simp
qed

text \<open>
  C2. Claimed: a window given with its bounds reversed is answered like the window in order.
  \<open>_hilo\<close> does not reorder the bounds. With \<open>x0 > x1\<close> no row passes the filter, the answer
  is the zero tuple, and it agrees with the answer for the bounds in order exactly when no
  row lies between them.
\<close>

theorem reversed_window_is_empty:
  assumes "x1 < x0"
  shows "u_hilo s x0 x1 = (0, 0, Num 0, Num 0, 0)
     \<and> (u_hilo s x0 x1 = u_hilo s x1 x0 \<longleftrightarrow> (\<forall>r \<in> set (rows (df s)). \<not> in_window x1 x0 r))"
proof -
  have e: "filter (in_window x0 x1) (rows (df s)) = []"
    using assms by (rule filter_in_window_reversed)
  have a: "u_hilo s x0 x1 = (0, 0, Num 0, Num 0, 0)"
    using u_hilo_empty[OF e] by (simp add: sentinel_def)
  have "u_hilo s x0 x1 = u_hilo s x1 x0 \<longleftrightarrow> (\<forall>r \<in> set (rows (df s)). \<not> in_window x1 x0 r)"
  proof
    assume "u_hilo s x0 x1 = u_hilo s x1 x0"
    with a have "u_hilo s x1 x0 = (0, 0, Num 0, Num 0, 0)" by simp
    then have "answer_cnt (u_hilo s x1 x0) = 0" by (simp only: answer_cnt_def snd_conv)
    then have "filter (in_window x1 x0) (rows (df s)) = []" by (simp add: answer_cnt_u_hilo)
    then show "\<forall>r \<in> set (rows (df s)). \<not> in_window x1 x0 r" by (simp add: filter_empty_conv)
  next
    assume "\<forall>r \<in> set (rows (df s)). \<not> in_window x1 x0 r"
    then have "filter (in_window x1 x0) (rows (df s)) = []" by (simp add: filter_empty_conv)
    then show "u_hilo s x0 x1 = u_hilo s x1 x0" using u_hilo_empty e by simp
  qed
  with a show ?thesis by simp
qed

theorem reversed_window_is_empty_witness:
  "(1500000000 :: real) < 1500000060
   \<and> u_hilo ex_epoch 1500000060 1500000000 = (0, 0, Num 0, Num 0, 0)
   \<and> (u_hilo ex_epoch 1500000060 1500000000 = u_hilo ex_epoch 1500000000 1500000060
        \<longleftrightarrow> (\<forall>r \<in> set (rows (df ex_epoch)). \<not> in_window 1500000000 1500000060 r))"
proof -
  have h: "(1500000000 :: real) < 1500000060" by simp
  show ?thesis using h reversed_window_is_empty[OF h, of ex_epoch] by blast
qed

text \<open>
  C2, the claim as it was stated, refuted: on the two epoch samples the reversed window gives
  the zero tuple and the window in order gives both rows.
\<close>

theorem reversed_window_counterexample:
  "u_hilo ex_epoch 1500000060 1500000000 \<noteq> u_hilo ex_epoch 1500000000 1500000060"
  by (simp add: u_hilo_eval ex_epoch_fields)

text \<open>
  C3. A rescale whose range query counts fewer than 20 rows returns the view box as it was,
  its rectangle included; only the source's cache has recorded the query. With 20 rows or
  more it returns a view box holding the new rectangle. The source is any source whose cache
  is as the methods leave it.
\<close>

theorem scaleRect_threshold:
  assumes "datasrc vb = Some s" and "cache_ok s"
  shows "\<exists>t0 t1 hi lo cnt s'.
     hilo s (fst (zoom_window vr sf (zoom_center vr center)))
            (snd (zoom_window vr sf (zoom_center vr center))) = (Some (t0, t1, hi, lo, cnt), s')
     \<and> (cnt < 20 \<longrightarrow>
          scaleRect vb vr sf center = Inr (vb\<lparr>datasrc := Some s'\<rparr>)
          \<and> targetRect (vb\<lparr>datasrc := Some s'\<rparr>) = targetRect vb)
     \<and> (20 \<le> cnt \<longrightarrow>
          (\<exists>p vb'. period s = Inr p \<and> scaleRect vb vr sf center = Inr vb'
             \<and> targetRect vb' =
                 \<lparr>x_left = t0 - p / 2, y_top = lo, x_right = t1 + p / 2, y_bottom = hi\<rparr>))"
proof -
  let ?x0 = "fst (zoom_window vr sf (zoom_center vr center))"
  let ?x1 = "snd (zoom_window vr sf (zoom_center vr center))"
  obtain a where a: "fst (hilo s ?x0 ?x1) = Some a" "answer_cnt a \<le> length (rows (df s))"
    using cache_ok_hilo_Some[OF assms(2)] by blast
  obtain t0 t1 hi lo cnt where t: "a = (t0, t1, hi, lo, cnt)" by (cases a) auto
  obtain s' where h: "hilo s ?x0 ?x1 = (Some (t0, t1, hi, lo, cnt), s')"
    using a(1) t by (cases "hilo s ?x0 ?x1") auto
  have small: "cnt < 20 \<longrightarrow> scaleRect vb vr sf center = Inr (vb\<lparr>datasrc := Some s'\<rparr>)
          \<and> targetRect (vb\<lparr>datasrc := Some s'\<rparr>) = targetRect vb"
    using scaleRect_rejected[OF assms(1) h] by simp
  have big: "20 \<le> cnt \<longrightarrow>
          (\<exists>p vb'. period s = Inr p \<and> scaleRect vb vr sf center = Inr vb'
             \<and> targetRect vb' =
                 \<lparr>x_left = t0 - p / 2, y_top = lo, x_right = t1 + p / 2, y_bottom = hi\<rparr>)"
  proof
    assume c: "20 \<le> cnt"
    then have "2 \<le> length (rows (df s))" using a(2) t by (simp add: answer_cnt_def)
    then obtain p where p: "period s = Inr p" using period_two_rows by blast
    have "targetRect (u_setRange (vb\<lparr>datasrc := Some s'\<rparr>) (t0 - p * 0.5) lo (t1 + p * 0.5) hi)
       = \<lparr>x_left = t0 - p / 2, y_top = lo, x_right = t1 + p / 2, y_bottom = hi\<rparr>"
      by (simp add: u_setRange_def)
    then show "\<exists>p vb'. period s = Inr p \<and> scaleRect vb vr sf center = Inr vb'
             \<and> targetRect vb' =
                 \<lparr>x_left = t0 - p / 2, y_top = lo, x_right = t1 + p / 2, y_bottom = hi\<rparr>"
      using scaleRect_accepted[OF assms(1) h c p] p by blast
  qed
  show ?thesis using h small big by blast
qed


theorem scaleRect_threshold_witness:
  "datasrc ex_view = Some ex_source20 \<and> cache_ok ex_source20
   \<and> fst (hilo ex_source20 0 1080) = Some (0, 1080, Num 28, Num 10, 19)
   \<and> scaleRect ex_view ex_rect19 1 None
       = Inr (ex_view\<lparr>datasrc := Some (snd (hilo ex_source20 0 1080))\<rparr>)
   \<and> fst (hilo ex_source20 0 1140) = Some (0, 1140, Num 29, Num 10, 20)
   \<and> map_sum id targetRect (scaleRect ex_view (targetRect ex_view) 1 None)
       = Inr \<lparr>x_left = - 30, y_top = Num 10, x_right = 1170, y_bottom = Num 29\<rparr>"
proof -
  have d: "datasrc ex_view = Some ex_source20" by (rule ex_view_fields)
  note c = cache_ok_ex20
  from scaleRect_threshold[OF d c, of ex_rect19 1 None]
  obtain t0 t1 hi lo cnt s' where
    h: "hilo ex_source20 0 1080 = (Some (t0, t1, hi, lo, cnt), s')" and
    r: "cnt < 20 \<longrightarrow> scaleRect ex_view ex_rect19 1 None = Inr (ex_view\<lparr>datasrc := Some s'\<rparr>)"
    unfolding zoom_ex_19 fst_conv snd_conv by blast
  from h have "cnt = 19" by (simp add: hilo_ex20_19)
  moreover from h have "s' = snd (hilo ex_source20 0 1080)" by simp
  ultimately have low: "scaleRect ex_view ex_rect19 1 None
       = Inr (ex_view\<lparr>datasrc := Some (snd (hilo ex_source20 0 1080))\<rparr>)" using r by simp
  from scaleRect_threshold[OF d c, of "targetRect ex_view" 1 None]
  obtain u0 u1 uhi ulo ucnt us' where
    h2: "hilo ex_source20 0 1140 = (Some (u0, u1, uhi, ulo, ucnt), us')" and
    r2: "20 \<le> ucnt \<longrightarrow>
          (\<exists>p vb'. period ex_source20 = Inr p
             \<and> scaleRect ex_view (targetRect ex_view) 1 None = Inr vb'
             \<and> targetRect vb' =
                 \<lparr>x_left = u0 - p / 2, y_top = ulo, x_right = u1 + p / 2, y_bottom = uhi\<rparr>)"
    unfolding zoom_ex_all fst_conv snd_conv by blast
  from h2 have "u0 = 0" "u1 = 1140" "uhi = Num 29" "ulo = Num 10" "ucnt = 20"
    by (simp_all add: hilo_ex20_all)
  with r2 obtain vb' where "scaleRect ex_view (targetRect ex_view) 1 None = Inr vb'"
     "targetRect vb' = \<lparr>x_left = - 30, y_top = Num 10, x_right = 1170, y_bottom = Num 29\<rparr>"
    by (auto simp: period_ex20)
  then have high: "map_sum id targetRect (scaleRect ex_view (targetRect ex_view) 1 None)
       = Inr \<lparr>x_left = - 30, y_top = Num 10, x_right = 1170, y_bottom = Num 29\<rparr>" by simp
  show ?thesis using d c low high by (simp add: hilo_ex20_19 hilo_ex20_all)
qed

text \<open>
  C4. An accepted rescale (the range query over the candidate window returns
  \<open>(t0, t1, hi, lo, cnt)\<close> with \<open>cnt\<close> at least 20) hands over exactly the rectangle with X from
  \<open>t0 - period/2\<close> to \<open>t1 + period/2\<close> and Y from \<open>lo\<close> to \<open>hi\<close>; the period exists.
\<close>

theorem scaleRect_commits_exact_rectangle:
  assumes "datasrc vb = Some s" and "cache_ok s"
    and "hilo s (fst (zoom_window vr sf (zoom_center vr center)))
                (snd (zoom_window vr sf (zoom_center vr center))) = (Some (t0, t1, hi, lo, cnt), s')"
    and "20 \<le> cnt"
  shows "\<exists>p. period s = Inr p
     \<and> scaleRect vb vr sf center =
         Inr (u_setRange (vb\<lparr>datasrc := Some s'\<rparr>) (t0 - p * 0.5) lo (t1 + p * 0.5) hi)
     \<and> targetRect (u_setRange (vb\<lparr>datasrc := Some s'\<rparr>) (t0 - p * 0.5) lo (t1 + p * 0.5) hi)
         = \<lparr>x_left = t0 - p / 2, y_top = lo, x_right = t1 + p / 2, y_bottom = hi\<rparr>"
proof -
  obtain a where a: "fst (hilo s (fst (zoom_window vr sf (zoom_center vr center)))
                (snd (zoom_window vr sf (zoom_center vr center)))) = Some a"
     "answer_cnt a \<le> length (rows (df s))"
    using cache_ok_hilo_Some[OF assms(2)] by blast
  then have "cnt \<le> length (rows (df s))" using assms(3) by (auto simp add: answer_cnt_def)
  then have "2 \<le> length (rows (df s))" using assms(4) by simp
  then obtain p where p: "period s = Inr p" using period_two_rows by blast
  have "targetRect (u_setRange (vb\<lparr>datasrc := Some s'\<rparr>) (t0 - p * 0.5) lo (t1 + p * 0.5) hi)
       = \<lparr>x_left = t0 - p / 2, y_top = lo, x_right = t1 + p / 2, y_bottom = hi\<rparr>"
    by (simp add: u_setRange_def)
  then show ?thesis using scaleRect_accepted[OF assms(1) assms(3) assms(4) p] p by blast
qed

theorem scaleRect_commits_exact_rectangle_witness:
  "period ex_source20 = Inr 60
   \<and> map_sum id targetRect (scaleRect ex_view (targetRect ex_view) 1 None)
       = Inr \<lparr>x_left = 0 - 60 / 2, y_top = Num 10, x_right = 1140 + 60 / 2, y_bottom = Num 29\<rparr>"
proof -
  have d: "datasrc ex_view = Some ex_source20" by (rule ex_view_fields)
  have h: "hilo ex_source20
       (fst (zoom_window (targetRect ex_view) 1 (zoom_center (targetRect ex_view) None)))
       (snd (zoom_window (targetRect ex_view) 1 (zoom_center (targetRect ex_view) None)))
     = (Some (0, 1140, Num 29, Num 10, 20),
        ex_source20\<lparr>cache_hilo_query := hilo_query 0 1140,
                     cache_hilo_answer := Some (0, 1140, Num 29, Num 10, 20)\<rparr>)"
    by (simp only: zoom_ex_all fst_conv snd_conv hilo_ex20_all)
  have c: "(20 :: nat) \<le> 20" by simp
  from scaleRect_commits_exact_rectangle[OF d cache_ok_ex20 h c]
  show ?thesis by (auto simp: period_ex20)
qed

text \<open>
  C5. Claimed: after a query with a different window, the original window is answered by a
  fresh computation. The cache compares the formatted keys, and two different windows can
  have the same key: the upper bounds 1500000058 and 1500000062 are both written
  \<open>1.50000006e+09\<close>. What holds: the second of two identical queries returns the same answer
  and leaves the source as it is, and after a query whose key differs from the key of the
  original window, the original window is answered by the computation \<open>_hilo\<close>.
\<close>

theorem hilo_cache_hit_and_recompute:
  "fst (hilo (snd (hilo s x0 x1)) x0 x1) = fst (hilo s x0 x1)
   \<and> snd (hilo (snd (hilo s x0 x1)) x0 x1) = snd (hilo s x0 x1)
   \<and> (hilo_query y0 y1 \<noteq> hilo_query x0 x1 \<longrightarrow>
        fst (hilo (run_queries s [(x0, x1), (y0, y1)]) x0 x1) = Some (u_hilo s x0 x1))"
proof -
  let ?s1 = "snd (hilo s x0 x1)"
  have hit: "hilo ?s1 x0 x1 = (cache_hilo_answer ?s1, ?s1)"
    by (rule hilo_hit) (simp add: hilo_cache_query)
  have 1: "fst (hilo ?s1 x0 x1) = fst (hilo s x0 x1)" "snd (hilo ?s1 x0 x1) = ?s1"
    using hit by (simp_all add: hilo_cache_answer)
  have 2: "hilo_query y0 y1 \<noteq> hilo_query x0 x1 \<longrightarrow>
        fst (hilo (run_queries s [(x0, x1), (y0, y1)]) x0 x1) = Some (u_hilo s x0 x1)"
  proof
    assume ne: "hilo_query y0 y1 \<noteq> hilo_query x0 x1"
    let ?s2 = "snd (hilo ?s1 y0 y1)"
    have q: "cache_hilo_query ?s2 \<noteq> hilo_query x0 x1" using ne by (simp add: hilo_cache_query)
    have "u_hilo ?s2 x0 x1 = u_hilo s x0 x1"
      by (rule u_hilo_cong) (simp_all add: hilo_df hilo_skip)
    then show "fst (hilo (run_queries s [(x0, x1), (y0, y1)]) x0 x1) = Some (u_hilo s x0 x1)"
      using hilo_miss[OF q] by (simp add: run_queries_def)
  qed
  show ?thesis using 1 2 by simp
qed

theorem hilo_cache_hit_and_recompute_witness:
  "hilo_query 0 1500000000 \<noteq> hilo_query 0 1500000058
   \<and> fst (hilo (run_queries ex_primed [(0, 1500000058), (0, 1500000000)]) 0 1500000058)
       = Some (1500000000, 1500000000, Num 5, Num 5, 1)"
proof -
  have ne: "hilo_query 0 1500000000 \<noteq> hilo_query 0 1500000058"
    by (simp add: hilo_query_epoch_00 hilo_query_epoch_58)
  show ?thesis
    using ne hilo_cache_hit_and_recompute[of ex_primed 0 1500000058 0 1500000000]
    by (simp add: u_hilo_primed_58)
qed

text \<open>
  C5, the claim as it was stated, refuted: on the source whose cache holds the answer for
  the upper bound 1500000062, the window with upper bound 1500000058 is queried, then the
  other window, then the first again. The two windows differ, and the first is answered with
  the two cached rows where the computation finds one.
\<close>

theorem near_window_stale_counterexample:
  "(0 :: real, 1500000062 :: real) \<noteq> (0, 1500000058)
   \<and> fst (hilo (run_queries ex_primed [(0, 1500000058), (0, 1500000062)]) 0 1500000058)
       \<noteq> Some (u_hilo ex_primed 0 1500000058)"
proof -
  have q: "cache_hilo_query ex_primed = hilo_query 0 1500000058"
          "cache_hilo_query ex_primed = hilo_query 0 1500000062"
    by (simp_all add: ex_primed_eq hilo_query_epoch_58 hilo_query_epoch_62)
  have r: "run_queries ex_primed [(0, 1500000058), (0, 1500000062)] = ex_primed"
    by (simp add: run_queries_def hilo_hit[OF q(1)] hilo_hit[OF q(2)])
  have "fst (hilo ex_primed 0 1500000058) = Some (1500000000, 1500000060, Num 7, Num 5, 2)"
    by (simp add: hilo_hit[OF q(1)]) (simp add: ex_primed_eq)
  then show ?thesis by (simp add: r u_hilo_primed_58)
qed

text \<open>
  C6. \<open>addcols\<close> leaves the cache as it is: after \<open>hilo(x0, x1)\<close> and a merge of new columns,
  \<open>hilo(x0, x1)\<close> returns the answer computed before the merge, and the merged columns count
  only once a query with another key is made.
\<close>

theorem addcols_keeps_cached_answer:
  assumes "addcols (snd (hilo s x0 x1)) new = Some s2"
  shows "fst (hilo s2 x0 x1) = fst (hilo s x0 x1)
     \<and> cache_hilo_query s2 = hilo_query x0 x1
     \<and> cache_hilo_answer s2 = fst (hilo s x0 x1)
     \<and> (hilo_query y0 y1 \<noteq> hilo_query x0 x1 \<longrightarrow> fst (hilo s2 y0 y1) = Some (u_hilo s2 y0 y1))"
proof -
  let ?s1 = "snd (hilo s x0 x1)"
  obtain d where d: "s2 = ?s1\<lparr>df := d\<rparr>"
    using assms by (auto simp: addcols_def)
  have q: "cache_hilo_query s2 = hilo_query x0 x1" using d by (simp add: hilo_cache_query)
  have a: "cache_hilo_answer s2 = fst (hilo s x0 x1)" using d by (simp add: hilo_cache_answer)
  have 1: "fst (hilo s2 x0 x1) = fst (hilo s x0 x1)" using hilo_hit[OF q] a by simp
  have 2: "hilo_query y0 y1 \<noteq> hilo_query x0 x1 \<longrightarrow> fst (hilo s2 y0 y1) = Some (u_hilo s2 y0 y1)"
  proof
    assume "hilo_query y0 y1 \<noteq> hilo_query x0 x1"
    then have "cache_hilo_query s2 \<noteq> hilo_query y0 y1" using q by simp
    then show "fst (hilo s2 y0 y1) = Some (u_hilo s2 y0 y1)" by (simp add: hilo_miss)
  qed
  show ?thesis using 1 q a 2 by simp
qed

theorem addcols_keeps_cached_answer_witness:
  "addcols (snd (hilo ex_epoch 1500000000 1500000060)) ex_extra = Some ex_merged
   \<and> fst (hilo ex_epoch 1500000000 1500000060) = Some (1500000000, 1500000060, Num 7, Num 5, 2)
   \<and> fst (hilo ex_merged 1500000000 1500000060) = Some (1500000000, 1500000060, Num 7, Num 5, 2)
   \<and> u_hilo ex_merged 1500000000 1500000060 = (1500000000, 1500000060, Num 200, Num 5, 2)
   \<and> hilo_query 0 1500000000 \<noteq> hilo_query 1500000000 1500000060
   \<and> fst (hilo ex_merged 0 1500000000) = Some (1500000000, 1500000000, Num 100, Num 5, 1)"
proof -
  have m: "addcols (snd (hilo ex_epoch 1500000000 1500000060)) ex_extra = Some ex_merged"
    by (simp add: addcols_def concat_columns_def select_labels_def ex_merged_def ex_extra_def
        hilo_df ex_epoch_fields)
  have f: "fst (hilo ex_epoch 1500000000 1500000060)
             = Some (1500000000, 1500000060, Num 7, Num 5, 2)"
    using hilo_miss[of ex_epoch 1500000000 1500000060]
    by (simp add: ex_epoch_fields hilo_query_nonempty) (simp add: u_hilo_eval ex_epoch_fields)
  have fields:
     "rows (df ex_merged) = [(1500000000, [Num 5, Num 100]), (1500000060, [Num 7, Num 200])]"
     "skip_scale_colcnt ex_merged = 1"
     "columns (df ex_merged) = [''close'', ''volume'']"
    by (simp_all add: ex_merged_def hilo_skip ex_epoch_fields)
  have u: "u_hilo ex_merged 1500000000 1500000060 = (1500000000, 1500000060, Num 200, Num 5, 2)"
    by (simp add: u_hilo_eval fields)
  have u2: "u_hilo ex_merged 0 1500000000 = (1500000000, 1500000000, Num 100, Num 5, 1)"
    by (simp add: u_hilo_eval fields)
  have ne: "hilo_query 0 1500000000 \<noteq> hilo_query 1500000000 1500000060"
    by (simp add: hilo_query_epoch_00) (simp add: hilo_query_def fmt9g_epoch_00)
  show ?thesis
    using m f u u2 ne addcols_keeps_cached_answer[OF m, of 0 1500000000]
    by simp
qed

text \<open>
  C7. The deferred-render gate, with its quiet period of two ticks. After \<open>_setRange\<close> every
  heavy item is hidden for fewer than two ticks and visible from the second tick on; the
  counter after \<open>n\<close> ticks is \<open>2 - n\<close>, so it is zero, and the reveal fires, at the second tick
  and at no other; and a further \<open>_setRange\<close> after any number \<open>k\<close> of ticks starts the same
  countdown again.
\<close>

theorem deferred_render_gate:
  "heavies ((show_heavies ^^ n) (u_setRange vb a b c d)) = map (\<lambda>_. 2 \<le> n) (heavies vb)
   \<and> heavies_blind_cnt ((show_heavies ^^ n) (u_setRange vb a b c d)) = 2 - int n
   \<and> (heavies_blind_cnt ((show_heavies ^^ n) (u_setRange vb a b c d)) = 0) = (n = 2)
   \<and> heavies ((show_heavies ^^ n)
        (u_setRange ((show_heavies ^^ k) (u_setRange vb a b c d)) a' b' c' d'))
       = map (\<lambda>_. 2 \<le> n) (heavies vb)
   \<and> heavies_blind_cnt ((show_heavies ^^ n)
        (u_setRange ((show_heavies ^^ k) (u_setRange vb a b c d)) a' b' c' d')) = 2 - int n"
proof -
  have "map (\<lambda>_. 2 \<le> n) (heavies ((show_heavies ^^ k) (u_setRange vb a b c d)))
          = map (\<lambda>_. 2 \<le> n) (heavies vb)"
    by (simp add: map_replicate_const ticks_length u_setRange_def)
  moreover have "heavies_blind_cnt (u_setRange v a'' b'' c'' d'') = 2" for v a'' b'' c'' d''
    by (simp add: u_setRange_def)
  moreover have "(2 - int n = 0) = (n = 2)" by arith
  ultimately show ?thesis
    by (simp add: ticks_after_setRange ticks_cnt)
qed




text \<open>
  C9. Claimed of \<open>hilo\<close> on every store. When no row of the table has its time in the
  window, \<open>_hilo\<close> returns the zero tuple, count 0 with \<open>t0\<close>, \<open>t1\<close>, \<open>hi\<close> and \<open>lo\<close> all 0.
  \<open>hilo\<close> returns it whenever the key of the window is not the cached key, as on a source
  that has answered no query; when the key is the cached one, \<open>hilo\<close> returns the cached
  answer. Neither has a raising branch.
\<close>

theorem empty_window_sentinel:
  assumes "\<forall>r \<in> set (rows (df s)). \<not> in_window x0 x1 r"
  shows "u_hilo s x0 x1 = (0, 0, Num 0, Num 0, 0)
     \<and> (hilo_query x0 x1 \<noteq> cache_hilo_query s \<longrightarrow>
          fst (hilo s x0 x1) = Some (0, 0, Num 0, Num 0, 0))
     \<and> (cache_hilo_query s = [] \<longrightarrow> fst (hilo s x0 x1) = Some (0, 0, Num 0, Num 0, 0))
     \<and> (hilo_query x0 x1 = cache_hilo_query s \<longrightarrow> fst (hilo s x0 x1) = cache_hilo_answer s)"
proof -
  have "filter (in_window x0 x1) (rows (df s)) = []"
    using assms by (simp add: filter_empty_conv)
  then have a: "u_hilo s x0 x1 = (0, 0, Num 0, Num 0, 0)"
    using u_hilo_empty by (simp add: sentinel_def)
  then have m: "hilo_query x0 x1 \<noteq> cache_hilo_query s \<longrightarrow>
      fst (hilo s x0 x1) = Some (0, 0, Num 0, Num 0, 0)"
    by (simp add: hilo_def Let_def)
  then have f: "cache_hilo_query s = [] \<longrightarrow> fst (hilo s x0 x1) = Some (0, 0, Num 0, Num 0, 0)"
    using hilo_query_nonempty(1)[of x0 x1] by auto
  have h: "hilo_query x0 x1 = cache_hilo_query s \<longrightarrow> fst (hilo s x0 x1) = cache_hilo_answer s"
    by (simp add: hilo_def Let_def)
  from a m f h show ?thesis by simp
qed

theorem empty_window_sentinel_witness:
  "u_hilo ex_epoch 0 100 = (0, 0, Num 0, Num 0, 0)
   \<and> fst (hilo ex_epoch 0 100) = Some (0, 0, Num 0, Num 0, 0)
   \<and> u_hilo ex_late 1500000062 1500000062 = (0, 0, Num 0, Num 0, 0)
   \<and> hilo_query 1500000062 1500000062 = cache_hilo_query ex_late
   \<and> fst (hilo ex_late 1500000062 1500000062) = cache_hilo_answer ex_late"
proof -
  have h: "\<forall>r \<in> set (rows (df ex_epoch)). \<not> in_window 0 100 r"
    by (simp add: ex_epoch_fields in_window_def)
  have q: "hilo_query 0 100 \<noteq> cache_hilo_query ex_epoch"
    by (simp add: ex_epoch_fields hilo_query_nonempty)
  have h': "\<forall>r \<in> set (rows (df ex_late)). \<not> in_window 1500000062 1500000062 r"
    by (simp add: ex_late_eq ex_epoch_fields in_window_def)
  have q': "hilo_query 1500000062 1500000062 = cache_hilo_query ex_late"
    by (simp add: ex_late_eq hilo_query_late)
  show ?thesis
    using empty_window_sentinel[OF h] q empty_window_sentinel[OF h'] q' by simp
qed

text \<open>
  C9, the claim as it was stated, refuted: after the query of the window from 1500000058 to
  1500000062, which holds the second sample, the window from 1500000062 to 1500000062 holds
  no row and has the same key, and \<open>hilo\<close> answers it with the cached count of one row.
\<close>

theorem empty_window_cache_hit_counterexample:
  "filter (in_window 1500000062 1500000062) (rows (df ex_late)) = []
   \<and> fst (hilo ex_late 1500000062 1500000062)
       = Some (1500000060, 1500000060, Num 7, Num 7, 1)
   \<and> fst (hilo ex_late 1500000062 1500000062) \<noteq> Some (0, 0, Num 0, Num 0, 0)"
proof -
  have q: "cache_hilo_query ex_late = hilo_query 1500000062 1500000062"
    by (simp add: ex_late_eq hilo_query_late)
  have a: "cache_hilo_answer ex_late = Some (1500000060, 1500000060, Num 7, Num 7, 1)"
    by (simp add: ex_late_eq)
  have e: "filter (in_window 1500000062 1500000062) (rows (df ex_late)) = []"
    by (simp add: ex_late_eq ex_epoch_fields in_window_def)
  show ?thesis using e a by (simp add: hilo_hit[OF q])
qed

text \<open>
  C10. A wheel event with the cursor a tenth of the width from the left edge gives the
  same result as one with the cursor on the left edge, and one at nine tenths the same as
  one on the right edge, whatever the view box and the delta; when the rectangle has a
  width, these are the rescales about the left and the right edge.
\<close>

theorem wheel_edge_snap:
  "wheelEvent vb delta (x_left (targetRect vb) + 0.1 * rect_width (targetRect vb))
     = wheelEvent vb delta (x_left (targetRect vb) + 0.0 * rect_width (targetRect vb))
   \<and> wheelEvent vb delta (x_left (targetRect vb) + 0.9 * rect_width (targetRect vb))
     = wheelEvent vb delta (x_left (targetRect vb) + 1.0 * rect_width (targetRect vb))
   \<and> (rect_width (targetRect vb) \<noteq> 0 \<longrightarrow>
        wheelEvent vb delta (x_left (targetRect vb) + 0.1 * rect_width (targetRect vb))
          = scaleRect vb (targetRect vb) (1.02 powr (of_int delta * wheelScaleFactor vb))
              (Some (x_left (targetRect vb)))
      \<and> wheelEvent vb delta (x_left (targetRect vb) + 0.9 * rect_width (targetRect vb))
          = scaleRect vb (targetRect vb) (1.02 powr (of_int delta * wheelScaleFactor vb))
              (Some (x_right (targetRect vb))))"
  by (simp add: wheelEvent_def Let_def)

theorem wheel_edge_snap_witness:
  "rect_width (targetRect ex_view) \<noteq> 0
   \<and> wheelEvent ex_view 3 114 = wheelEvent ex_view 3 0
   \<and> wheelEvent ex_view 3 1026 = wheelEvent ex_view 3 1140
   \<and> wheelEvent ex_view 3 114
       = scaleRect ex_view (targetRect ex_view) (1.02 powr (3 * (- 1 / 8))) (Some 0)
   \<and> wheelEvent ex_view 3 1026
       = scaleRect ex_view (targetRect ex_view) (1.02 powr (3 * (- 1 / 8))) (Some 1140)"
proof -
  have w: "rect_width (targetRect ex_view) = 1140" "x_left (targetRect ex_view) = 0"
    "x_right (targetRect ex_view) = 1140" "wheelScaleFactor ex_view = - 1 / 8"
    by (simp_all add: rect_width_def ex_view_def)
  show ?thesis using wheel_edge_snap[of ex_view 3] by (auto simp: w)
qed

end
